theory Spec2Isabelle
  imports Complex_Main
begin

section \<open>Python values\<close>

text \<open>
  The adapter in \<^verbatim>\<open>homeassistant/components/evacalor/climate.py\<close> passes
  untyped Python objects between the host and the vendor handle. The values it can
  meet are modelled by one datatype: \<^verbatim>\<open>None\<close>, numbers and strings. A Python
  float is modelled by the rational it denotes. Converting an int to a float rounds to
  the nearest double; doubling and halving, the only float arithmetic of the adapter,
  are exact on binary floats short of overflow and underflow.
\<close>

datatype pynum = PyInt int | PyFloat rat

datatype pyval = PyNone | PyNum pynum | PyStr string

fun num_val :: "pynum \<Rightarrow> rat" where
  "num_val (PyInt i) = of_int i"
| "num_val (PyFloat r) = r"

text \<open>Python's \<^verbatim>\<open>==\<close>: numbers compare by value across int and float.\<close>

fun py_eq :: "pyval \<Rightarrow> pyval \<Rightarrow> bool" where
  "py_eq PyNone PyNone = True"
| "py_eq (PyNum a) (PyNum b) = (num_val a = num_val b)"
| "py_eq (PyStr s) (PyStr t) = (s = t)"
| "py_eq _ _ = False"

text \<open>Python's \<^verbatim>\<open>x in xs\<close> on a list: some element equals \<open>x\<close>.\<close>

fun py_in :: "pyval \<Rightarrow> pyval list \<Rightarrow> bool" where
  "py_in x [] = False"
| "py_in x (y # ys) = (py_eq x y \<or> py_in x ys)"

section \<open>Exceptions\<close>

text \<open>
  Modelled from the spec: the exception classes of the vendor library pyevacalor are
  not part of the sources. The spec gives the closed variant unauthorized, connection
  failure and other, each a vendor-reported error; the source imports them as
  \<^verbatim>\<open>UnauthorizedError\<close>, \<^verbatim>\<open>ConnectionError\<close> and \<^verbatim>\<open>Error as EvaCalorError\<close>
  and lists the handlers from the special ones to \<^verbatim>\<open>EvaCalorError\<close>. Each carries its
  message.
\<close>

datatype vendor_error = UnauthorizedError string | ConnectionError string | Error string

fun is_UnauthorizedError :: "vendor_error \<Rightarrow> bool" where
  "is_UnauthorizedError (UnauthorizedError m) = True"
| "is_UnauthorizedError _ = False"

fun is_ConnectionError :: "vendor_error \<Rightarrow> bool" where
  "is_ConnectionError (ConnectionError m) = True"
| "is_ConnectionError _ = False"

fun is_EvaCalorError :: "vendor_error \<Rightarrow> bool" where
  "is_EvaCalorError (UnauthorizedError m) = True"
| "is_EvaCalorError (ConnectionError m) = True"
| "is_EvaCalorError (Error m) = True"

text \<open>What an operation can raise: a vendor error, or one of Python's own.\<close>

datatype exn = VendorExn vendor_error | TypeError | KeyError | IndexError | OverflowError

text \<open>The number of binary digits of a positive int, \<^verbatim>\<open>int.bit_length\<close>.\<close>

function bit_length :: "int \<Rightarrow> nat" where
  "bit_length n = (if n \<le> 0 then 0 else Suc (bit_length (n div 2)))"
  by pat_completeness auto
termination
  by (relation "measure nat") auto

declare bit_length.simps [simp del]

text \<open>
  The double nearest to an int. Up to \<open>2 ^ 53\<close> in magnitude every int is a double.
  Beyond, the int keeps its 53 leading binary digits, rounded to nearest with ties to
  even; there is no double (\<open>None\<close>) when that reaches \<open>2 ^ 1024\<close>.
\<close>

definition float_of_int :: "int \<Rightarrow> rat option" where
  "float_of_int i =
     (let n = \<bar>i\<bar> in
      if n \<le> 2 ^ 53 then Some (of_int i)
      else
        (let sh = bit_length n - 53;
             q = n div 2 ^ sh;
             rest = n mod 2 ^ sh;
             q' = (if 2 ^ (sh - 1) < rest \<or> (rest = 2 ^ (sh - 1) \<and> odd q)
                   then q + 1 else q);
             v = q' * 2 ^ sh
         in if 2 ^ 1024 \<le> v then None
            else Some (if i < 0 then - of_int v else of_int v)))"

text \<open>
  \<^verbatim>\<open>float(x)\<close> and \<^verbatim>\<open>int(x)\<close> on a number or \<^verbatim>\<open>None\<close> (\<open>None\<close> here).
  \<^verbatim>\<open>float\<close> returns a float as it is, rounds an int to the nearest double and raises
  \<^verbatim>\<open>OverflowError\<close> on an int too large for one.
\<close>

fun py_float :: "pynum option \<Rightarrow> exn + rat" where
  "py_float None = Inl TypeError"
| "py_float (Some (PyFloat r)) = Inr r"
| "py_float (Some (PyInt i)) =
     (case float_of_int i of None \<Rightarrow> Inl OverflowError | Some r \<Rightarrow> Inr r)"

fun py_int :: "pynum option \<Rightarrow> exn + int" where
  "py_int None = Inl TypeError"
| "py_int (Some (PyInt i)) = Inr i"
| "py_int (Some (PyFloat r)) = Inr (if 0 \<le> r then \<lfloor>r\<rfloor> else \<lceil>r\<rceil>)"

text \<open>\<^verbatim>\<open>x * 2\<close>: doubles a number, repeats a string, fails on \<^verbatim>\<open>None\<close>.\<close>

fun py_times2 :: "pyval \<Rightarrow> exn + pyval" where
  "py_times2 PyNone = Inl TypeError"
| "py_times2 (PyNum (PyInt i)) = Inr (PyNum (PyInt (i * 2)))"
| "py_times2 (PyNum (PyFloat r)) = Inr (PyNum (PyFloat (r * 2)))"
| "py_times2 (PyStr s) = Inr (PyStr (s @ s))"

section \<open>Constants\<close>

text \<open>
  Modelled from the spec: the host constants \<^verbatim>\<open>HVAC_MODE_HEAT\<close>, \<^verbatim>\<open>HVAC_MODE_OFF\<close>
  and \<^verbatim>\<open>ATTR_TEMPERATURE\<close> are imported, their module is not part of the sources.
  The spec names the two modes "heat" and "off".
\<close>

definition HVAC_MODE_HEAT :: pyval where
  "HVAC_MODE_HEAT = PyStr ''heat''"

definition HVAC_MODE_OFF :: pyval where
  "HVAC_MODE_OFF = PyStr ''off''"

definition ATTR_TEMPERATURE :: string where
  "ATTR_TEMPERATURE = ''temperature''"

text \<open>
  Modelled from the spec: the three running states \<^verbatim>\<open>CURRENT_HVAC_HEAT\<close>,
  \<^verbatim>\<open>CURRENT_HVAC_IDLE\<close> and \<^verbatim>\<open>CURRENT_HVAC_OFF\<close> are imported host constants as
  well. The spec names them heat, idle and off.
\<close>

definition CURRENT_HVAC_HEAT :: pyval where
  "CURRENT_HVAC_HEAT = PyStr ''heat''"

definition CURRENT_HVAC_IDLE :: pyval where
  "CURRENT_HVAC_IDLE = PyStr ''idle''"

definition CURRENT_HVAC_OFF :: pyval where
  "CURRENT_HVAC_OFF = PyStr ''off''"

text \<open>
  The five fan levels \<^verbatim>\<open>FAN_1\<close> .. \<^verbatim>\<open>FAN_5\<close> come from the component's
  \<^verbatim>\<open>const\<close> module, which is not part of the sources: they are a parameter.
\<close>

record fan_consts =
  FAN_1 :: pyval
  FAN_2 :: pyval
  FAN_3 :: pyval
  FAN_4 :: pyval
  FAN_5 :: pyval

definition FAN_MODES :: "fan_consts \<Rightarrow> pyval list" where
  "FAN_MODES c = [FAN_1 c, FAN_2 c, FAN_3 c, FAN_4 c, FAN_5 c]"

definition CURRENT_HVAC_MAP_EFESTO_HEAT :: "string \<rightharpoonup> pyval" where
  "CURRENT_HVAC_MAP_EFESTO_HEAT = map_of
     [(''ON'', CURRENT_HVAC_HEAT),
      (''CLEANING FIRE-POT'', CURRENT_HVAC_HEAT),
      (''FLAME LIGHT'', CURRENT_HVAC_HEAT),
      (''OFF'', CURRENT_HVAC_OFF)]"

section \<open>The vendor handle and the adapter\<close>

text \<open>
  The attributes of the vendor's device object that the adapter reads. The numeric
  ones are a number or \<^verbatim>\<open>None\<close>; the adapter converts them with \<^verbatim>\<open>float\<close> and
  \<^verbatim>\<open>int\<close>.
\<close>

record handle =
  dev_id_device :: pyval
  dev_name :: pyval
  dev_name_product :: pyval
  dev_status :: pyval
  dev_status_translated :: pyval
  dev_air_temperature :: "pynum option"
  dev_set_air_temperature :: "pynum option"
  dev_gas_temperature :: "pynum option"
  dev_real_power :: "pynum option"
  dev_set_power :: "pynum option"
  dev_min_temp :: pyval
  dev_max_temp :: pyval

text \<open>
  \<^verbatim>\<open>EvaCalorHeatingDevice\<close>: the attribute \<^verbatim>\<open>self._x\<close> is the field \<open>u_x\<close>,
  \<^verbatim>\<open>self.device\<close> is the handle as the adapter currently sees it.
\<close>

record entity =
  device :: handle
  u_device_id :: pyval
  u_on :: bool
  u_device_status :: pyval
  u_human_device_status :: pyval
  u_current_temperature :: pyval
  u_target_temperature :: pyval
  u_smoke_temperature :: pyval
  u_real_power :: pyval
  u_current_power :: pyval
  u_name :: pyval

definition EvaCalorHeatingDevice :: "handle \<Rightarrow> entity" where
  "EvaCalorHeatingDevice d =
     \<lparr>device = d,
      u_device_id = dev_id_device d,
      u_on = False,
      u_device_status = PyNone,
      u_human_device_status = PyNone,
      u_current_temperature = PyNone,
      u_target_temperature = PyNone,
      u_smoke_temperature = PyNone,
      u_real_power = PyNone,
      u_current_power = PyNone,
      u_name = dev_name d\<rparr>"

subsection \<open>Getters\<close>

definition unique_id :: "entity \<Rightarrow> pyval" where
  "unique_id e = u_device_id e"

definition name :: "entity \<Rightarrow> pyval" where
  "name e = u_name e"

definition min_temp :: "entity \<Rightarrow> pyval" where
  "min_temp e = dev_min_temp (device e)"

definition max_temp :: "entity \<Rightarrow> pyval" where
  "max_temp e = dev_max_temp (device e)"


definition target_temperature :: "entity \<Rightarrow> pyval" where
  "target_temperature e = u_target_temperature e"

definition hvac_mode :: "entity \<Rightarrow> pyval" where
  "hvac_mode e = (if u_on e then HVAC_MODE_HEAT else HVAC_MODE_OFF)"


definition fan_mode :: "fan_consts \<Rightarrow> entity \<Rightarrow> pyval" where
  "fan_mode c e =
     (if py_in (u_current_power e) (FAN_MODES c) then u_current_power e else FAN_1 c)"

definition fan_modes :: "fan_consts \<Rightarrow> entity \<Rightarrow> pyval list" where
  "fan_modes c e = FAN_MODES c"

text \<open>
  \<^verbatim>\<open>x in d\<close> on the dictionary, whose keys are strings: only a string can be a key
  of it, and \<^verbatim>\<open>d.get(x)\<close> is then the value stored.
\<close>

definition hvac_action :: "entity \<Rightarrow> pyval" where
  "hvac_action e =
     (case u_human_device_status e of
        PyStr k \<Rightarrow>
          (case CURRENT_HVAC_MAP_EFESTO_HEAT k of
             Some a \<Rightarrow> a
           | None \<Rightarrow> CURRENT_HVAC_IDLE)
      | _ \<Rightarrow> CURRENT_HVAC_IDLE)"

section \<open>Effects\<close>

text \<open>
  The vendor library is outside the repository: what a call on the handle does is
  given by the environment as a reply, the error it raises (if any) and the handle as
  it is after the call. An operation of the adapter returns an outcome: the value
  returned or the exception that escapes, the adapter after the operation, the calls
  made on the handle in order, and the lines logged.
\<close>

record reply =
  raised :: "vendor_error option"
  settled :: handle

datatype vendor_call =
    Turn_on
  | Turn_off
  | Update
  | Write_set_air_temperature pyval
  | Write_set_power pyval

datatype logarg = ArgErr vendor_error | ArgVal pyval

datatype log_entry = LogError string "logarg list"

record 'a outcome =
  returned :: "exn + 'a"
  self :: entity
  calls :: "vendor_call list"
  logged :: "log_entry list"

subsection \<open>Commands\<close>

definition turn_off :: "reply \<Rightarrow> entity \<Rightarrow> unit outcome" where
  "turn_off r e =
     (let e' = e\<lparr>device := settled r\<rparr> in
      case raised r of
        None \<Rightarrow> \<lparr>returned = Inr (), self = e', calls = [Turn_off], logged = []\<rparr>
      | Some err \<Rightarrow>
          if is_EvaCalorError err
          then \<lparr>returned = Inr (), self = e', calls = [Turn_off],
                logged = [LogError ''Failed to turn off device (original message: %s)''
                            [ArgErr err]]\<rparr>
          else \<lparr>returned = Inl (VendorExn err), self = e', calls = [Turn_off],
                logged = []\<rparr>)"

definition turn_on :: "reply \<Rightarrow> entity \<Rightarrow> unit outcome" where
  "turn_on r e =
     (let e' = e\<lparr>device := settled r\<rparr> in
      case raised r of
        None \<Rightarrow> \<lparr>returned = Inr (), self = e', calls = [Turn_on], logged = []\<rparr>
      | Some err \<Rightarrow>
          if is_EvaCalorError err
          then \<lparr>returned = Inr (), self = e', calls = [Turn_on],
                logged = [LogError ''Failed to turn on device (original message: %s)''
                            [ArgErr err]]\<rparr>
          else \<lparr>returned = Inl (VendorExn err), self = e', calls = [Turn_on],
                logged = []\<rparr>)"

text \<open>\<^verbatim>\<open>kwargs.get(key)\<close>: \<^verbatim>\<open>None\<close> for a key that is absent.\<close>

definition kwargs_get :: "(string \<rightharpoonup> pyval) \<Rightarrow> string \<Rightarrow> pyval" where
  "kwargs_get kwargs k = (case kwargs k of None \<Rightarrow> PyNone | Some v \<Rightarrow> v)"

definition set_temperature :: "(string \<rightharpoonup> pyval) \<Rightarrow> reply \<Rightarrow> entity \<Rightarrow> unit outcome" where
  "set_temperature kwargs r e =
     (let temperature = kwargs_get kwargs ATTR_TEMPERATURE in
      if temperature = PyNone
      then \<lparr>returned = Inr (), self = e, calls = [], logged = []\<rparr>
      else
        case py_times2 temperature of
          Inl x \<Rightarrow> \<lparr>returned = Inl x, self = e, calls = [], logged = []\<rparr>
        | Inr v \<Rightarrow>
            (let e' = e\<lparr>device := settled r\<rparr> in
             case raised r of
               None \<Rightarrow> \<lparr>returned = Inr (), self = e',
                         calls = [Write_set_air_temperature v], logged = []\<rparr>
             | Some err \<Rightarrow>
                 if is_EvaCalorError err
                 then \<lparr>returned = Inr (), self = e',
                       calls = [Write_set_air_temperature v],
                       logged = [LogError ''Failed to set temperature (original message: %s)''
                                   [ArgErr err]]\<rparr>
                 else \<lparr>returned = Inl (VendorExn err), self = e',
                       calls = [Write_set_air_temperature v], logged = []\<rparr>))"

definition set_fan_mode :: "pyval \<Rightarrow> reply \<Rightarrow> entity \<Rightarrow> unit outcome" where
  "set_fan_mode mode r e =
     (if mode = PyNone
      then \<lparr>returned = Inr (), self = e, calls = [], logged = []\<rparr>
      else
        (let e' = e\<lparr>device := settled r\<rparr> in
         case raised r of
           None \<Rightarrow> \<lparr>returned = Inr (), self = e',
                     calls = [Write_set_power mode], logged = []\<rparr>
         | Some err \<Rightarrow>
             if is_EvaCalorError err
             then \<lparr>returned = Inr (), self = e',
                   calls = [Write_set_power mode],
                   logged = [LogError ''Failed to set temperature (original message: %s)''
                               [ArgErr err]]\<rparr>
             else \<lparr>returned = Inl (VendorExn err), self = e',
                   calls = [Write_set_power mode], logged = []\<rparr>))"

definition set_hvac_mode :: "pyval \<Rightarrow> reply \<Rightarrow> entity \<Rightarrow> unit outcome" where
  "set_hvac_mode mode r e =
     (if py_eq mode HVAC_MODE_OFF then turn_off r e
      else if py_eq mode HVAC_MODE_HEAT then turn_on r e
      else \<lparr>returned = Inr (), self = e, calls = [], logged = []\<rparr>)"

subsection \<open>Update\<close>

text \<open>
  The assignments after a refresh that did not raise, in the source's order. A
  conversion that raises stops them; the fields assigned before it stay assigned.
\<close>

definition assign_snapshot :: "entity \<Rightarrow> exn option \<times> entity" where
  "assign_snapshot e0 =
     (let d = device e0;
          e1 = e0\<lparr>u_device_status := dev_status d\<rparr> in
      case py_float (dev_air_temperature d) of
        Inl x \<Rightarrow> (Some x, e1)
      | Inr a \<Rightarrow>
     (let e2 = e1\<lparr>u_current_temperature := PyNum (PyFloat a)\<rparr> in
      case py_float (dev_set_air_temperature d) of
        Inl x \<Rightarrow> (Some x, e2)
      | Inr b \<Rightarrow>
     (let e3 = e2\<lparr>u_target_temperature := PyNum (PyFloat (b / 2))\<rparr>;
          e4 = e3\<lparr>u_human_device_status := dev_status_translated d\<rparr> in
      case py_float (dev_gas_temperature d) of
        Inl x \<Rightarrow> (Some x, e4)
      | Inr g \<Rightarrow>
     (let e5 = e4\<lparr>u_smoke_temperature := PyNum (PyFloat g)\<rparr> in
      case py_int (dev_real_power d) of
        Inl x \<Rightarrow> (Some x, e5)
      | Inr p \<Rightarrow>
     (let e6 = e5\<lparr>u_real_power := PyNum (PyInt p)\<rparr> in
      case py_int (dev_set_power d) of
        Inl x \<Rightarrow> (Some x, e6)
      | Inr q \<Rightarrow>
     (let e7 = e6\<lparr>u_current_power := PyNum (PyInt q)\<rparr> in
      if py_eq (u_device_status e7) (PyNum (PyInt 0))
      then (None, e7\<lparr>u_on := False\<rparr>)
      else (None, e7\<lparr>u_on := True\<rparr>)))))))"

definition update :: "reply \<Rightarrow> entity \<Rightarrow> bool outcome" where
  "update r e =
     (let e' = e\<lparr>device := settled r\<rparr> in
      case raised r of
        Some err \<Rightarrow>
          if is_UnauthorizedError err
          then \<lparr>returned = Inr False, self = e', calls = [Update],
                logged = [LogError ''Wrong credentials for device %s''
                            [ArgVal (u_device_id e')]]\<rparr>
          else if is_ConnectionError err
          then \<lparr>returned = Inr False, self = e', calls = [Update],
                logged = [LogError ''Connection to %s not possible''
                            [ArgVal (u_device_id e')]]\<rparr>
          else if is_EvaCalorError err
          then \<lparr>returned = Inr False, self = e', calls = [Update],
                logged = [LogError ''Error: %s'' [ArgErr err]]\<rparr>
          else \<lparr>returned = Inl (VendorExn err), self = e', calls = [Update],
                logged = []\<rparr>
      | None \<Rightarrow>
          (case assign_snapshot e' of
             (Some x, e'') \<Rightarrow>
               \<lparr>returned = Inl x, self = e'', calls = [Update], logged = []\<rparr>
           | (None, e'') \<Rightarrow>
               \<lparr>returned = Inr True, self = e'', calls = [Update], logged = []\<rparr>))"

section \<open>Setup\<close>

text \<open>
  The vendor client: the constructor \<^verbatim>\<open>evacalor(email, password, uuid)\<close> is a
  parameter of the setup, and so is what reading \<^verbatim>\<open>devices\<close> on the client gives.
  The entry's data is a dictionary read at three keys.
\<close>

record client =
  devices :: "vendor_error + handle list"

datatype conf_key = CONF_EMAIL | CONF_PASSWORD | CONF_UUID

record setup_outcome =
  setup_returned :: "exn + bool"
  added :: "(entity list \<times> bool) list"
  setup_logged :: "log_entry list"

text \<open>The body of the \<^verbatim>\<open>try\<close>: build the client and take its first device.\<close>

definition first_device ::
  "(pyval \<Rightarrow> pyval \<Rightarrow> pyval \<Rightarrow> vendor_error + client) \<Rightarrow>
     pyval \<Rightarrow> pyval \<Rightarrow> pyval \<Rightarrow> exn + handle" where
  "first_device evacalor email password gen_uuid =
     (case evacalor email password gen_uuid of
        Inl err \<Rightarrow> Inl (VendorExn err)
      | Inr eva \<Rightarrow>
          (case devices eva of
             Inl err \<Rightarrow> Inl (VendorExn err)
           | Inr [] \<Rightarrow> Inl IndexError
           | Inr (d # ds) \<Rightarrow> Inr d))"

definition async_setup_entry ::
  "(pyval \<Rightarrow> pyval \<Rightarrow> pyval \<Rightarrow> vendor_error + client) \<Rightarrow>
     (conf_key \<rightharpoonup> pyval) \<Rightarrow> setup_outcome" where
  "async_setup_entry evacalor data =
     (case data CONF_EMAIL of
        None \<Rightarrow> \<lparr>setup_returned = Inl KeyError, added = [], setup_logged = []\<rparr>
      | Some email \<Rightarrow>
     (case data CONF_PASSWORD of
        None \<Rightarrow> \<lparr>setup_returned = Inl KeyError, added = [], setup_logged = []\<rparr>
      | Some password \<Rightarrow>
     (case data CONF_UUID of
        None \<Rightarrow> \<lparr>setup_returned = Inl KeyError, added = [], setup_logged = []\<rparr>
      | Some gen_uuid \<Rightarrow>
     (case first_device evacalor email password gen_uuid of
        Inl (VendorExn err) \<Rightarrow>
          if is_UnauthorizedError err
          then \<lparr>setup_returned = Inr False, added = [],
                setup_logged = [LogError ''Wrong credentials for Eva Calor'' []]\<rparr>
          else if is_ConnectionError err
          then \<lparr>setup_returned = Inr False, added = [],
                setup_logged = [LogError ''Connection to Eva Calor not possible'' []]\<rparr>
          else if is_EvaCalorError err
          then \<lparr>setup_returned = Inr False, added = [],
                setup_logged = [LogError ''Unknown Eva Calor error: %s'' [ArgErr err]]\<rparr>
          else \<lparr>setup_returned = Inl (VendorExn err), added = [], setup_logged = []\<rparr>
      | Inl x \<Rightarrow> \<lparr>setup_returned = Inl x, added = [], setup_logged = []\<rparr>
      | Inr dev \<Rightarrow>
          \<lparr>setup_returned = Inr True,
           added = [([EvaCalorHeatingDevice dev], True)],
           setup_logged = []\<rparr>))))"

section \<open>Calls of the host\<close>





section \<open>Sample values\<close>

text \<open>A stove, a table of fan levels, a stored entry and vendor replies to run the model on.\<close>

definition stove :: handle where
  "stove =
     \<lparr>dev_id_device = PyStr ''AABBCCDDEEFF'',
      dev_name = PyStr ''stove'',
      dev_name_product = PyStr ''pellet stove'',
      dev_status = PyNum (PyInt 2),
      dev_status_translated = PyStr ''FLAME LIGHT'',
      dev_air_temperature = Some (PyFloat (39 / 2)),
      dev_set_air_temperature = Some (PyInt 43),
      dev_gas_temperature = Some (PyInt 120),
      dev_real_power = Some (PyInt 3),
      dev_set_power = Some (PyInt 4),
      dev_min_temp = PyNum (PyInt 7),
      dev_max_temp = PyNum (PyInt 40)\<rparr>"

definition levels :: fan_consts where
  "levels = \<lparr>FAN_1 = PyNum (PyInt 1), FAN_2 = PyNum (PyInt 2), FAN_3 = PyNum (PyInt 3),
             FAN_4 = PyNum (PyInt 4), FAN_5 = PyNum (PyInt 5)\<rparr>"

definition entry_data :: "conf_key \<rightharpoonup> pyval" where
  "entry_data = [CONF_EMAIL \<mapsto> PyStr ''test-username'',
                 CONF_PASSWORD \<mapsto> PyStr ''test-password'',
                 CONF_UUID \<mapsto> PyStr ''AABBCCDDEEFF'']"

definition guessed_data :: "conf_key \<rightharpoonup> pyval" where
  "guessed_data = [CONF_EMAIL \<mapsto> PyStr ''test-username'',
                   CONF_PASSWORD \<mapsto> PyStr ''guess'',
                   CONF_UUID \<mapsto> PyStr ''AABBCCDDEEFF'']"

definition quiet :: reply where
  "quiet = \<lparr>raised = None, settled = stove\<rparr>"

definition polled :: reply where
  "polled = \<lparr>raised = None,
             settled = stove\<lparr>dev_set_air_temperature := Some (PyFloat 43)\<rparr>\<rparr>"


definition refused :: reply where
  "refused = \<lparr>raised = Some (ConnectionError ''timeout''), settled = stove\<rparr>"

definition cloud :: "pyval \<Rightarrow> pyval \<Rightarrow> pyval \<Rightarrow> vendor_error + client" where
  "cloud email password gen_uuid =
     (if password = PyStr ''test-password''
      then Inr \<lparr>devices = Inr [stove]\<rparr>
      else Inl (UnauthorizedError ''wrong credentials''))"

definition half_degrees :: "string \<rightharpoonup> pyval" where
  "half_degrees = [ATTR_TEMPERATURE \<mapsto> PyNum (PyFloat (43 / 2))]"


section \<open>Auxiliary facts\<close>

lemma is_EvaCalorError_all: "is_EvaCalorError err"
  by (cases err) simp_all


lemma float_of_int_exact: "\<bar>i\<bar> \<le> 2 ^ 53 \<Longrightarrow> float_of_int i = Some (of_int i)"
  by (simp add: float_of_int_def)

lemma bit_length_54: "bit_length 9007199254740993 = 54"
  by (simp add: bit_length.simps)

lemma float_of_int_rounds: "float_of_int (2 ^ 53 + 1) = Some (2 ^ 53)"
  by (simp add: float_of_int_def bit_length_54)

lemma py_float_exact:
  assumes "num_val m = of_int k" and "\<bar>k\<bar> \<le> 2 ^ 53"
  shows "py_float (Some m) = Inr (of_int k)"
proof (cases m)
  case (PyInt j)
  with assms(1) have "j = k"
    by simp
  with PyInt assms(2) show ?thesis
    by (simp add: float_of_int_exact)
next
  case (PyFloat r)
  with assms(1) show ?thesis
    by simp
qed

lemma assign_snapshot_ok:
  assumes "assign_snapshot e0 = (None, e1)"
  shows "u_device_status e1 = dev_status (device e0)"
    and "u_on e1 = (\<not> py_eq (dev_status (device e0)) (PyNum (PyInt 0)))"
    and "\<exists>b. py_float (dev_set_air_temperature (device e0)) = Inr b
           \<and> u_target_temperature e1 = PyNum (PyFloat (b / 2))"
  using assms
  by (auto simp: assign_snapshot_def Let_def split: sum.splits if_splits)

lemma update_True:
  assumes "returned (update r e) = Inr True"
  shows "raised r = None"
    and "\<exists>e1. assign_snapshot (e\<lparr>device := settled r\<rparr>) = (None, e1) \<and> self (update r e) = e1"
  using assms
  by (auto simp: update_def Let_def split: option.splits if_splits prod.splits)

lemma update_polled:
  "update polled e =
     \<lparr>returned = Inr True,
      self = e\<lparr>device := stove\<lparr>dev_set_air_temperature := Some (PyFloat 43)\<rparr>,
               u_device_status := PyNum (PyInt 2),
               u_current_temperature := PyNum (PyFloat (39 / 2)),
               u_target_temperature := PyNum (PyFloat (43 / 2)),
               u_human_device_status := PyStr ''FLAME LIGHT'',
               u_smoke_temperature := PyNum (PyFloat 120),
               u_real_power := PyNum (PyInt 3),
               u_current_power := PyNum (PyInt 4),
               u_on := True\<rparr>,
      calls = [Update], logged = []\<rparr>"
  by (simp add: update_def assign_snapshot_def polled_def stove_def float_of_int_def Let_def)

lemma turn_on_frame: "(self (turn_on r e))\<lparr>device := h\<rparr> = e\<lparr>device := h\<rparr>"
  by (simp add: turn_on_def Let_def split: option.splits)

lemma turn_off_frame: "(self (turn_off r e))\<lparr>device := h\<rparr> = e\<lparr>device := h\<rparr>"
  by (simp add: turn_off_def Let_def split: option.splits)

lemma set_temperature_frame:
  "(self (set_temperature kwargs r e))\<lparr>device := h\<rparr> = e\<lparr>device := h\<rparr>"
  by (simp add: set_temperature_def Let_def split: option.splits sum.splits)

lemma set_fan_mode_frame:
  "(self (set_fan_mode mode r e))\<lparr>device := h\<rparr> = e\<lparr>device := h\<rparr>"
  by (simp add: set_fan_mode_def Let_def split: option.splits)

lemma set_hvac_mode_frame:
  "(self (set_hvac_mode mode r e))\<lparr>device := h\<rparr> = e\<lparr>device := h\<rparr>"
  by (simp add: set_hvac_mode_def turn_on_frame turn_off_frame)






section \<open>The claims\<close>

text \<open>
  C1. Target-temperature round trip. Let \<open>t\<close> be a multiple of 0.5, \<open>k\<close> half degrees,
  with \<open>k\<close> at most \<open>2 ^ 53\<close> in magnitude, so that the half-degree value is a double.
  \<^verbatim>\<open>set_temperature\<close> with \<open>t\<close> writes \<open>t * 2\<close> to the handle, whatever the vendor
  answers; when a later update succeeds on a handle that reads back the value written,
  \<^verbatim>\<open>target_temperature\<close> is the float \<open>t\<close>, equal to the \<open>t\<close> given.
\<close>

theorem set_temperature_update_roundtrip:
  assumes half: "num_val n = of_int k / 2"
    and bound: "\<bar>k\<bar> \<le> 2 ^ 53"
    and kw: "kwargs ATTR_TEMPERATURE = Some (PyNum n)"
    and dbl: "py_times2 (PyNum n) = Inr (PyNum m)"
    and rd: "dev_set_air_temperature (settled r2) = Some m"
    and ok: "returned (update r2 (self (set_temperature kwargs r1 e))) = Inr True"
  shows "calls (set_temperature kwargs r1 e) = [Write_set_air_temperature (PyNum m)]
    \<and> num_val m = of_int k
    \<and> target_temperature (self (update r2 (self (set_temperature kwargs r1 e))))
        = PyNum (PyFloat (num_val n))
    \<and> py_eq (target_temperature (self (update r2 (self (set_temperature kwargs r1 e)))))
        (PyNum n)"
proof -
  let ?e1 = "self (set_temperature kwargs r1 e)"
  have c: "calls (set_temperature kwargs r1 e) = [Write_set_air_temperature (PyNum m)]"
    using kw dbl
    by (simp add: set_temperature_def kwargs_get_def Let_def is_EvaCalorError_all
        split: option.splits)
  have "num_val m = num_val n * 2"
    using dbl by (cases n) auto
  with half have m: "num_val m = of_int k"
    by simp
  from update_True(2)[OF ok] obtain e2 where
    a: "assign_snapshot (?e1\<lparr>device := settled r2\<rparr>) = (None, e2)"
    and s: "self (update r2 ?e1) = e2"
    by blast
  from assign_snapshot_ok(3)[OF a] rd py_float_exact [OF m bound]
  have t: "u_target_temperature e2 = PyNum (PyFloat (of_int k / 2))"
    by simp
  show ?thesis
    using c m t half by (simp add: s target_temperature_def)
qed

theorem set_temperature_update_roundtrip_witness:
  "calls (set_temperature half_degrees refused (EvaCalorHeatingDevice stove))
     = [Write_set_air_temperature (PyNum (PyFloat 43))]
   \<and> target_temperature
       (self (update polled (self (set_temperature half_degrees refused
          (EvaCalorHeatingDevice stove)))))
     = PyNum (PyFloat (43 / 2))"
proof -
  have h1: "num_val (PyFloat (43 / 2)) = of_int 43 / 2"
    by simp
  have hb: "\<bar>43 :: int\<bar> \<le> 2 ^ 53"
    by simp
  have h2: "half_degrees ATTR_TEMPERATURE = Some (PyNum (PyFloat (43 / 2)))"
    by (simp add: half_degrees_def)
  have h3: "py_times2 (PyNum (PyFloat (43 / 2))) = Inr (PyNum (PyFloat 43))"
    by simp
  have h4: "dev_set_air_temperature (settled polled) = Some (PyFloat 43)"
    by (simp add: polled_def)
  have h5: "returned (update polled (self (set_temperature half_degrees refused
              (EvaCalorHeatingDevice stove)))) = Inr True"
    by (simp add: update_polled)
  show ?thesis
    using set_temperature_update_roundtrip [OF h1 hb h2 h3 h4 h5] by simp
qed

text \<open>
  C2. After every successful update the cached status code is the one polled; when it
  equals 0 the on-flag is false and \<^verbatim>\<open>hvac_mode\<close> is "off", when it does not the
  on-flag is true and \<^verbatim>\<open>hvac_mode\<close> is "heat".
\<close>

theorem update_on_flag_hvac_mode:
  assumes "returned (update r e) = Inr True"
  shows "u_device_status (self (update r e)) = dev_status (settled r)
    \<and> (py_eq (dev_status (settled r)) (PyNum (PyInt 0)) \<longrightarrow>
          \<not> u_on (self (update r e)) \<and> hvac_mode (self (update r e)) = PyStr ''off'')
    \<and> (\<not> py_eq (dev_status (settled r)) (PyNum (PyInt 0)) \<longrightarrow>
          u_on (self (update r e)) \<and> hvac_mode (self (update r e)) = PyStr ''heat'')"
proof -
  from update_True(2)[OF assms] obtain e1 where
    a: "assign_snapshot (e\<lparr>device := settled r\<rparr>) = (None, e1)" and s: "self (update r e) = e1"
    by blast
  from assign_snapshot_ok(1,2)[OF a] show ?thesis
    by (simp add: s hvac_mode_def HVAC_MODE_OFF_def HVAC_MODE_HEAT_def)
qed

theorem update_on_flag_hvac_mode_witness:
  "returned (update polled (EvaCalorHeatingDevice stove)) = Inr True
   \<and> u_on (self (update polled (EvaCalorHeatingDevice stove)))
   \<and> hvac_mode (self (update polled (EvaCalorHeatingDevice stove))) = PyStr ''heat''"
proof -
  have h: "returned (update polled (EvaCalorHeatingDevice stove)) = Inr True"
    by (simp add: update_polled)
  have z: "\<not> py_eq (dev_status (settled polled)) (PyNum (PyInt 0))"
    by (simp add: polled_def stove_def)
  show ?thesis
    using update_on_flag_hvac_mode [OF h] h z by simp
qed

text \<open>
  C3. When the refresh of the handle raises a vendor error (unauthorized, connection or
  any other), update returns False, logs, and leaves every cached field as it was.
\<close>

theorem update_vendor_error_keeps_snapshot:
  assumes "raised r = Some err"
  shows "returned (update r e) = Inr False
    \<and> calls (update r e) = [Update]
    \<and> logged (update r e) \<noteq> []
    \<and> self (update r e) = e\<lparr>device := settled r\<rparr>
    \<and> u_on (self (update r e)) = u_on e
    \<and> u_device_status (self (update r e)) = u_device_status e
    \<and> u_human_device_status (self (update r e)) = u_human_device_status e
    \<and> u_current_temperature (self (update r e)) = u_current_temperature e
    \<and> u_target_temperature (self (update r e)) = u_target_temperature e
    \<and> u_smoke_temperature (self (update r e)) = u_smoke_temperature e
    \<and> u_real_power (self (update r e)) = u_real_power e
    \<and> u_current_power (self (update r e)) = u_current_power e"
  using assms by (cases err) (simp_all add: update_def Let_def)

theorem update_vendor_error_keeps_snapshot_witness:
  "returned (update refused (EvaCalorHeatingDevice stove)) = Inr False
   \<and> u_target_temperature (self (update refused (EvaCalorHeatingDevice stove))) = PyNone
   \<and> u_on (self (update refused (EvaCalorHeatingDevice stove))) = False"
proof -
  have h: "raised refused = Some (ConnectionError ''timeout'')"
    by (simp add: refused_def)
  show ?thesis
    using update_vendor_error_keeps_snapshot [OF h, of "EvaCalorHeatingDevice stove"]
    by (simp add: EvaCalorHeatingDevice_def)
qed

text \<open>
  C4. \<^verbatim>\<open>hvac_action\<close> is heat on the cached status "ON", "CLEANING FIRE-POT" and
  "FLAME LIGHT", off on "OFF", and idle on every other value; it is a total function.
\<close>

theorem hvac_action_classification:
  "hvac_action e =
     (if u_human_device_status e
           \<in> {PyStr ''ON'', PyStr ''CLEANING FIRE-POT'', PyStr ''FLAME LIGHT''}
      then CURRENT_HVAC_HEAT
      else if u_human_device_status e = PyStr ''OFF'' then CURRENT_HVAC_OFF
      else CURRENT_HVAC_IDLE)"
  by (cases "u_human_device_status e")
     (simp_all add: hvac_action_def CURRENT_HVAC_MAP_EFESTO_HEAT_def)

theorem hvac_action_classification_witness:
  "hvac_action ((EvaCalorHeatingDevice stove)\<lparr>u_human_device_status := PyStr ''STANDBY''\<rparr>)
     = CURRENT_HVAC_IDLE
   \<and> hvac_action (self (update polled (EvaCalorHeatingDevice stove))) = CURRENT_HVAC_HEAT"
  using hvac_action_classification
          [of "(EvaCalorHeatingDevice stove)\<lparr>u_human_device_status := PyStr ''STANDBY''\<rparr>"]
        hvac_action_classification [of "self (update polled (EvaCalorHeatingDevice stove))"]
  by (simp add: update_polled)

text \<open>
  C5. \<^verbatim>\<open>fan_mode\<close> is the cached power when that is one of the five levels and the
  first level otherwise; \<^verbatim>\<open>fan_modes\<close> is the five levels in their order.
\<close>

theorem fan_mode_enumerated_or_first:
  "(py_in (u_current_power e) [FAN_1 c, FAN_2 c, FAN_3 c, FAN_4 c, FAN_5 c]
      \<longrightarrow> fan_mode c e = u_current_power e)
   \<and> (\<not> py_in (u_current_power e) [FAN_1 c, FAN_2 c, FAN_3 c, FAN_4 c, FAN_5 c]
      \<longrightarrow> fan_mode c e = FAN_1 c)
   \<and> fan_modes c e = [FAN_1 c, FAN_2 c, FAN_3 c, FAN_4 c, FAN_5 c]"
  by (simp add: fan_mode_def fan_modes_def FAN_MODES_def)

theorem fan_mode_enumerated_or_first_witness:
  "fan_mode levels ((EvaCalorHeatingDevice stove)\<lparr>u_current_power := PyNum (PyInt 4)\<rparr>)
     = PyNum (PyInt 4)
   \<and> fan_mode levels ((EvaCalorHeatingDevice stove)\<lparr>u_current_power := PyNum (PyInt 9)\<rparr>)
     = PyNum (PyInt 1)"
  using fan_mode_enumerated_or_first
          [of "(EvaCalorHeatingDevice stove)\<lparr>u_current_power := PyNum (PyInt 4)\<rparr>" levels]
        fan_mode_enumerated_or_first
          [of "(EvaCalorHeatingDevice stove)\<lparr>u_current_power := PyNum (PyInt 9)\<rparr>" levels]
  by (simp add: levels_def)

text \<open>
  C6. Setup, for an entry that holds the three keys. When building the client or reading
  its devices raises a vendor error, setup returns False, logs, and registers nothing;
  when the client has a first device, setup returns True and registers exactly one
  adapter, asking for an immediate poll; and whenever setup returns True it has
  registered exactly one.
\<close>

theorem async_setup_entry_outcomes:
  assumes "data CONF_EMAIL = Some em" and "data CONF_PASSWORD = Some pw"
    and "data CONF_UUID = Some uu"
  shows "((evacalor em pw uu = Inl err
           \<or> (\<exists>eva. evacalor em pw uu = Inr eva \<and> devices eva = Inl err)) \<longrightarrow>
          setup_returned (async_setup_entry evacalor data) = Inr False
          \<and> added (async_setup_entry evacalor data) = []
          \<and> setup_logged (async_setup_entry evacalor data) \<noteq> [])
    \<and> (\<forall>eva d ds. evacalor em pw uu = Inr eva \<and> devices eva = Inr (d # ds) \<longrightarrow>
          setup_returned (async_setup_entry evacalor data) = Inr True
          \<and> added (async_setup_entry evacalor data) = [([EvaCalorHeatingDevice d], True)])
    \<and> (setup_returned (async_setup_entry evacalor data) = Inr True \<longrightarrow>
          (\<exists>d. added (async_setup_entry evacalor data) = [([EvaCalorHeatingDevice d], True)]))"
  using assms
  by (cases err)
     (auto simp: async_setup_entry_def first_device_def is_EvaCalorError_all
        split: sum.splits list.splits exn.splits if_splits)

theorem async_setup_entry_outcomes_witness:
  "setup_returned (async_setup_entry cloud entry_data) = Inr True
   \<and> added (async_setup_entry cloud entry_data) = [([EvaCalorHeatingDevice stove], True)]
   \<and> setup_returned (async_setup_entry cloud guessed_data) = Inr False
   \<and> added (async_setup_entry cloud guessed_data) = []"
proof -
  have h1: "entry_data CONF_EMAIL = Some (PyStr ''test-username'')"
    and h2: "entry_data CONF_PASSWORD = Some (PyStr ''test-password'')"
    and h3: "entry_data CONF_UUID = Some (PyStr ''AABBCCDDEEFF'')"
    by (simp_all add: entry_data_def)
  have g1: "guessed_data CONF_EMAIL = Some (PyStr ''test-username'')"
    and g2: "guessed_data CONF_PASSWORD = Some (PyStr ''guess'')"
    and g3: "guessed_data CONF_UUID = Some (PyStr ''AABBCCDDEEFF'')"
    by (simp_all add: guessed_data_def)
  have c1: "cloud (PyStr ''test-username'') (PyStr ''test-password'') (PyStr ''AABBCCDDEEFF'')
              = Inr \<lparr>devices = Inr [stove]\<rparr>"
    and c2: "cloud (PyStr ''test-username'') (PyStr ''guess'') (PyStr ''AABBCCDDEEFF'')
              = Inl (UnauthorizedError ''wrong credentials'')"
    by (simp_all add: cloud_def)
  show ?thesis
    using async_setup_entry_outcomes [OF h1 h2 h3, where evacalor = cloud]
      async_setup_entry_outcomes [OF g1 g2 g3, where evacalor = cloud
        and err = "UnauthorizedError ''wrong credentials''"]
    by (simp add: c1 c2)
qed

text \<open>
  C7. \<^verbatim>\<open>set_hvac_mode\<close> with "off" makes the one vendor call turn-off, with "heat"
  the one vendor call turn-on, and with any other value makes no call, logs nothing,
  leaves the adapter as it is and returns normally.
\<close>

theorem set_hvac_mode_calls:
  "(mode = PyStr ''off'' \<longrightarrow> calls (set_hvac_mode mode r e) = [Turn_off])
   \<and> (mode = PyStr ''heat'' \<longrightarrow> calls (set_hvac_mode mode r e) = [Turn_on])
   \<and> (mode \<noteq> PyStr ''off'' \<and> mode \<noteq> PyStr ''heat'' \<longrightarrow>
        calls (set_hvac_mode mode r e) = [] \<and> returned (set_hvac_mode mode r e) = Inr ()
        \<and> self (set_hvac_mode mode r e) = e \<and> logged (set_hvac_mode mode r e) = [])"
  by (cases mode; cases "raised r")
     (auto simp: set_hvac_mode_def turn_off_def turn_on_def HVAC_MODE_OFF_def
        HVAC_MODE_HEAT_def Let_def is_EvaCalorError_all)

theorem set_hvac_mode_calls_witness:
  "calls (set_hvac_mode (PyStr ''off'') refused (EvaCalorHeatingDevice stove)) = [Turn_off]
   \<and> calls (set_hvac_mode (PyStr ''heat'') quiet (EvaCalorHeatingDevice stove)) = [Turn_on]
   \<and> calls (set_hvac_mode (PyStr ''cool'') quiet (EvaCalorHeatingDevice stove)) = []"
  using set_hvac_mode_calls [where mode = "PyStr ''off''" and r = refused
          and e = "EvaCalorHeatingDevice stove"]
        set_hvac_mode_calls [where mode = "PyStr ''heat''" and r = quiet
          and e = "EvaCalorHeatingDevice stove"]
        set_hvac_mode_calls [where mode = "PyStr ''cool''" and r = quiet
          and e = "EvaCalorHeatingDevice stove"]
  by simp



text \<open>
  C9. No command changes a cached field: after turn on, turn off, set temperature, set
  fan mode and set mode, with the vendor call succeeding or raising, the adapter is the
  one before the command once the handle it refers to is set aside.
\<close>

theorem commands_keep_snapshot:
  "(self (turn_on r e))\<lparr>device := device e\<rparr> = e
   \<and> (self (turn_off r e))\<lparr>device := device e\<rparr> = e
   \<and> (self (set_temperature kwargs r e))\<lparr>device := device e\<rparr> = e
   \<and> (self (set_fan_mode mode r e))\<lparr>device := device e\<rparr> = e
   \<and> (self (set_hvac_mode mode' r e))\<lparr>device := device e\<rparr> = e"
  by (simp add: turn_on_frame turn_off_frame set_temperature_frame set_fan_mode_frame
      set_hvac_mode_frame)

theorem commands_keep_snapshot_witness:
  "u_on (self (turn_on quiet (EvaCalorHeatingDevice stove))) = False
   \<and> u_target_temperature
        (self (set_temperature half_degrees refused (EvaCalorHeatingDevice stove))) = PyNone
   \<and> u_current_power
        (self (set_fan_mode (PyNum (PyInt 3)) quiet (EvaCalorHeatingDevice stove))) = PyNone"
proof -
  let ?e = "EvaCalorHeatingDevice stove"
  note k = commands_keep_snapshot [where r = quiet and e = ?e and mode = "PyNum (PyInt 3)"]
    commands_keep_snapshot [where r = refused and e = ?e and kwargs = half_degrees]
  have "u_on ((self (turn_on quiet ?e))\<lparr>device := device ?e\<rparr>) = u_on ?e"
    and "u_target_temperature
           ((self (set_temperature half_degrees refused ?e))\<lparr>device := device ?e\<rparr>)
         = u_target_temperature ?e"
    and "u_current_power
           ((self (set_fan_mode (PyNum (PyInt 3)) quiet ?e))\<lparr>device := device ?e\<rparr>)
         = u_current_power ?e"
    using k by simp_all
  then show ?thesis
    by (simp add: EvaCalorHeatingDevice_def)
qed




end
